theory Spec2Isabelle
  imports Main
begin

section \<open>Values shared by the components\<close>

text \<open>
  A JavaScript exception value. Only its message matters to the components: they hand the
  caught value to \<open>formatError\<close> and show the result.
\<close>

datatype js_error = Error string

text \<open>
  The GraphQL \<open>Offer\<close> fields the checkout form picks:
  \<^verbatim>\<open>Pick<Offer, 'id' | 'unitPrice' | 'availableQuantity'>\<close>, all three strings.
\<close>

record offer =
  offer_id :: string
  unitPrice :: string
  availableQuantity :: string

section \<open>The checkout form: \<open>components/Offer/Form/Checkout.tsx\<close>\<close>

subsection \<open>\<open>canPurchase\<close>\<close>

text \<open>
  \<^verbatim>\<open>
  const canPurchase = useMemo(() => {
    if (!balance || !quantity) return false
    return balance.gte(priceUnit.mul(quantity))
  }, [balance, priceUnit, quantity])
  \<close>
  \<open>balance\<close> is a \<open>BigNumber\<close> or \<open>undefined\<close> (an object is always truthy, so only
  \<open>undefined\<close> is falsy); \<open>quantity\<close> is the watched form string, falsy exactly when empty.
  \<open>BigNumber\<close> is an arbitrary-precision integer, so \<open>mul\<close> and \<open>gte\<close> are the operations
  of \<open>int\<close>. \<open>priceUnit.mul(quantity)\<close> converts its string argument with
  \<open>BigNumber.from\<close>, which belongs to an external library and throws on a string it cannot
  read; the conversion is the parameter \<open>BigNumber_from\<close>.
\<close>

definition canPurchase ::
  "(string \<Rightarrow> js_error + int) \<Rightarrow> int option \<Rightarrow> int \<Rightarrow> string \<Rightarrow> js_error + bool" where
  "canPurchase BigNumber_from balance priceUnit quantity =
     (case balance of
        None \<Rightarrow> Inr False
      | Some b \<Rightarrow>
          if quantity = [] then Inr False
          else (case BigNumber_from quantity of
                  Inl e \<Rightarrow> Inl e
                | Inr q \<Rightarrow> Inr (priceUnit * q \<le> b)))"

text \<open>
  A reader of decimal strings, used to run the definitions on concrete inputs: an optional
  minus sign followed by one or more digits, anything else an error.
\<close>

fun digits_value :: "int \<Rightarrow> string \<Rightarrow> int option" where
  "digits_value acc [] = Some acc"
| "digits_value acc (c # cs) =
     (if (48::nat) \<le> of_char c \<and> of_char c \<le> (57::nat)
      then digits_value (acc * 10 + (int (of_char c) - 48)) cs
      else None)"

definition decimal_from :: "string \<Rightarrow> js_error + int" where
  "decimal_from s =
     (case s of
        [] \<Rightarrow> Inl (Error ''invalid BigNumber string'')
      | c # cs \<Rightarrow>
          (if c = CHR ''-'' \<and> cs \<noteq> []
           then (case digits_value 0 cs of
                   None \<Rightarrow> Inl (Error ''invalid BigNumber string'')
                 | Some n \<Rightarrow> Inr (- n))
           else (case digits_value 0 s of
                   None \<Rightarrow> Inl (Error ''invalid BigNumber string'')
                 | Some n \<Rightarrow> Inr n)))"

subsection \<open>Effects of the event handlers\<close>

text \<open>
  The handlers of both components act on the same kind of state: a modal that is open or
  closed (\<open>useDisclosure\<close>), the toasts shown so far (\<open>useToast\<close>), and the calls made to
  collaborators that live outside the components, in order. A call is recorded as awaited
  (\<open>await f(...)\<close>) or plain (\<open>f(...)\<close>).
\<close>

datatype toast_status = success | error

record toast_options =
  title :: string
  status :: toast_status

datatype call = AcceptOffer offer string | OnPurchased | CancelOffer string | Refetch

datatype event = Await call | Invoke call

record ui =
  isOpen :: bool
  toasts :: "toast_options list"
  calls :: "event list"

text \<open>
  A statement either completes or throws, and leaves a new state: \<open>Inl e\<close> is the thrown
  value.
\<close>

type_synonym action = "ui \<Rightarrow> (js_error + unit) \<times> ui"

definition throw :: "js_error \<Rightarrow> action" where
  "throw e s = (Inl e, s)"

definition and_then :: "action \<Rightarrow> action \<Rightarrow> action" where
  "and_then a b s = (case a s of (Inl e, s') \<Rightarrow> (Inl e, s') | (Inr _, s') \<Rightarrow> b s')"

text \<open>
  \<^verbatim>\<open>try { body } catch (e) { handler(e) } finally { fin }\<close>: the handler runs when the
  body throws, \<open>fin\<close> runs in every case, and what \<open>fin\<close> throws replaces the outcome.
\<close>

definition try_catch_finally :: "action \<Rightarrow> (js_error \<Rightarrow> action) \<Rightarrow> action \<Rightarrow> action" where
  "try_catch_finally body handler fin s =
     (case body s of
        (r1, s1) \<Rightarrow>
          (case (case r1 of Inl e \<Rightarrow> handler e s1 | Inr v \<Rightarrow> (Inr v, s1)) of
             (r2, s2) \<Rightarrow>
               (case fin s2 of
                  (Inl e, s3) \<Rightarrow> (Inl e, s3)
                | (Inr _, s3) \<Rightarrow> (r2, s3))))"

definition onOpen :: action where
  "onOpen s = (Inr (), s\<lparr>isOpen := True\<rparr>)"

definition onClose :: action where
  "onClose s = (Inr (), s\<lparr>isOpen := False\<rparr>)"

definition toast :: "toast_options \<Rightarrow> action" where
  "toast opts s = (Inr (), s\<lparr>toasts := toasts s @ [opts]\<rparr>)"

text \<open>
  A call to a collaborator is logged and ends the way the collaborator decides: \<open>outcome\<close>
  is \<open>Inr ()\<close> when the call returns (the promise resolves) and \<open>Inl e\<close> when it throws
  (the promise rejects).
\<close>

definition await :: "call \<Rightarrow> js_error + unit \<Rightarrow> action" where
  "await c outcome s = (outcome, s\<lparr>calls := calls s @ [Await c]\<rparr>)"

definition invoke :: "call \<Rightarrow> js_error + unit \<Rightarrow> action" where
  "invoke c outcome s = (outcome, s\<lparr>calls := calls s @ [Invoke c]\<rparr>)"

subsection \<open>\<open>onSubmit\<close>\<close>

text \<open>
  \<^verbatim>\<open>
  const onSubmit = handleSubmit(async ({ quantity }) => {
    if (!offer) throw new Error('offer falsy')
    try {
      acceptOfferOnOpen()
      await acceptOffer(offer, quantity)
      onPurchased()
    } catch (e) {
      toast({ title: formatError(e), status: 'error' })
    } finally {
      acceptOfferOnClose()
    }
  })
  \<close>
  The function is the callback given to \<open>handleSubmit\<close>. \<open>formatError\<close> and the outcomes
  of \<open>acceptOffer\<close> (the hook of \<open>useAcceptOffer\<close>) and \<open>onPurchased\<close> (a prop) are
  parameters. The prop type makes \<open>offer\<close> an object; the guard of the first line is
  kept, with \<open>None\<close> for a falsy offer.
\<close>

definition onSubmit ::
  "(js_error \<Rightarrow> string) \<Rightarrow> (offer \<Rightarrow> string \<Rightarrow> js_error + unit) \<Rightarrow> js_error + unit
     \<Rightarrow> offer option \<Rightarrow> string \<Rightarrow> action" where
  "onSubmit formatError acceptOffer onPurchased offer quantity =
     (case offer of
        None \<Rightarrow> throw (Error ''offer falsy'')
      | Some off \<Rightarrow>
          try_catch_finally
            (and_then onOpen
              (and_then (await (AcceptOffer off quantity) (acceptOffer off quantity))
                (invoke OnPurchased onPurchased)))
            (\<lambda>e. toast \<lparr>title = formatError e, status = error\<rparr>)
            onClose)"

subsection \<open>The submit button\<close>

text \<open>
  \<^verbatim>\<open>
  {account ? (
    <Button disabled={!!account && !canPurchase} isLoading={isSubmitting}
            size="lg" type="submit"> ... </Button>
  ) : (
    <Button size="lg" type="button" onClick={loginOnOpen}> ... </Button>
  )}
  \<close>
  \<open>account\<close> is \<open>string | null | undefined\<close>: truthy exactly when it is a non-empty
  string.
\<close>

definition truthy :: "string option \<Rightarrow> bool" where
  "truthy v = (case v of None \<Rightarrow> False | Some str \<Rightarrow> str \<noteq> [])"

datatype button_type = type_submit | type_button

datatype click_handler = loginOnOpen

record button =
  disabled :: bool
  isLoading :: bool
  button_type :: button_type
  onClick :: "click_handler option"

definition checkout_button :: "string option \<Rightarrow> bool \<Rightarrow> bool \<Rightarrow> button" where
  "checkout_button account can_purchase isSubmitting =
     (if truthy account
      then \<lparr>disabled = (truthy account \<and> \<not> can_purchase), isLoading = isSubmitting,
            button_type = type_submit, onClick = None\<rparr>
      else \<lparr>disabled = False, isLoading = False,
            button_type = type_button, onClick = Some loginOnOpen\<rparr>)"

text \<open>
  The button as the component renders it: \<open>canPurchase\<close> is computed during the render, so
  a quantity that \<open>BigNumber.from\<close> rejects makes the render throw.
\<close>

definition render_checkout_button ::
  "(string \<Rightarrow> js_error + int) \<Rightarrow> string option \<Rightarrow> int option \<Rightarrow> int \<Rightarrow> string \<Rightarrow> bool
     \<Rightarrow> js_error + button" where
  "render_checkout_button BigNumber_from account balance priceUnit quantity isSubmitting =
     (case canPurchase BigNumber_from balance priceUnit quantity of
        Inl e \<Rightarrow> Inl e
      | Inr can_purchase \<Rightarrow> Inr (checkout_button account can_purchase isSubmitting))"

text \<open>
  What a click on the button starts. A disabled button (the component library also disables
  a loading one) takes no click; a \<open>submit\<close> button submits the enclosing form, which runs
  \<open>onSubmit\<close>; a \<open>button\<close> only runs its \<open>onClick\<close>.
\<close>

datatype click_effect = no_effect | submits_form | opens_login

definition click :: "button \<Rightarrow> click_effect" where
  "click b =
     (if disabled b \<or> isLoading b then no_effect
      else (case button_type b of
              type_submit \<Rightarrow> submits_form
            | type_button \<Rightarrow>
                (case onClick b of None \<Rightarrow> no_effect | Some loginOnOpen \<Rightarrow> opens_login)))"

subsection \<open>The quantity field\<close>

text \<open>
  A number as \<open>parseInt\<close> returns it: \<open>NaN\<close>, an infinity, or a double with an integer
  value. \<open>round_double\<close> takes an integer to the double nearest to it, ties to the even
  significand: up to \<open>2^53\<close> every integer is a double, beyond that the 53 leading bits
  are kept, and from \<open>2^1024\<close> on the result is infinite.
\<close>

datatype js_number = NaN | Num int | PlusInfinity | MinusInfinity

fun bit_length :: "nat \<Rightarrow> nat" where
  "bit_length n = (if n = 0 then 0 else Suc (bit_length (n div 2)))"

declare bit_length.simps [simp del]

definition round_double :: "int \<Rightarrow> js_number" where
  "round_double n =
     (let m = nat \<bar>n\<bar> in
      if m < 2 ^ 53 then Num n
      else
        (let e = bit_length m - 53;
             q = m div 2 ^ e;
             r = m mod 2 ^ e;
             half = 2 ^ (e - 1);
             q' = (if half < r \<or> (r = half \<and> odd q) then q + 1 else q);
             v = q' * 2 ^ e
         in if 2 ^ 1024 \<le> v then (if n < 0 then MinusInfinity else PlusInfinity)
            else Num (if n < 0 then - int v else int v)))"

text \<open>
  \<open>parseInt(s, 10)\<close> of the language: leading white space is skipped, one sign is read,
  then the longest run of decimal digits; with no digit the result is \<open>NaN\<close>, otherwise
  the number the digits denote, as a double. (Strings are byte strings here, so the white
  space is the ASCII one.)
\<close>

definition is_space :: "char \<Rightarrow> bool" where
  "is_space c = (of_char c \<in> {9, 10, 11, 12, 13, 32 :: nat})"

definition is_digit :: "char \<Rightarrow> bool" where
  "is_digit c = ((48::nat) \<le> of_char c \<and> of_char c \<le> (57::nat))"

definition digits_number :: "string \<Rightarrow> int" where
  "digits_number ds = foldl (\<lambda>acc c. acc * 10 + (int (of_char c) - 48)) 0 ds"

definition parseInt10 :: "string \<Rightarrow> js_number" where
  "parseInt10 str =
     (let t = dropWhile is_space str;
          neg = (t \<noteq> [] \<and> hd t = CHR ''-'');
          u = (if t \<noteq> [] \<and> (hd t = CHR ''-'' \<or> hd t = CHR ''+'') then tl t else t);
          ds = takeWhile is_digit u
      in if ds = [] then NaN
         else round_double (if neg then - digits_number ds else digits_number ds))"

text \<open>\<open>a <= b\<close> on such numbers: false as soon as one of them is \<open>NaN\<close>.\<close>

fun number_le :: "js_number \<Rightarrow> js_number \<Rightarrow> bool" where
  "number_le NaN _ = False"
| "number_le _ NaN = False"
| "number_le MinusInfinity _ = True"
| "number_le _ PlusInfinity = True"
| "number_le (Num a) (Num b) = (a \<le> b)"
| "number_le _ _ = False"

text \<open>
  \<^verbatim>\<open>
  const { register, handleSubmit, formState, setValue, watch } = useForm<FormData>({
    defaultValues: { quantity: offer.availableQuantity },
  })
  ...
  <NumberInput
    clampValueOnBlur={false}
    min={1}
    max={parseInt(offer.availableQuantity, 10)}
    step={1}
    allowMouseWheel
    w="full"
    onChange={(x) => setValue('quantity', x)}
    format={(e) => e.toString()}
  >
    <NumberInputField
      id="quantity"
      placeholder={...}
      {...register('quantity', { required: t('offer.form.checkout.validation.required') })}
    />
    <NumberInputStepper>
      <NumberIncrementStepper />
      <NumberDecrementStepper />
    </NumberInputStepper>
  </NumberInput>
  \<close>
\<close>

record form_data =
  quantity :: string

record number_input_props =
  clampValueOnBlur :: bool
  min_prop :: int
  max_prop :: js_number
  step_prop :: int
  allowMouseWheel :: bool

definition defaultValues :: "offer \<Rightarrow> form_data" where
  "defaultValues off = \<lparr>quantity = availableQuantity off\<rparr>"

definition quantity_input_props :: "offer \<Rightarrow> number_input_props" where
  "quantity_input_props off =
     \<lparr>clampValueOnBlur = False, min_prop = 1,
      max_prop = parseInt10 (availableQuantity off), step_prop = 1,
      allowMouseWheel = True\<rparr>"

definition onChange :: "string \<Rightarrow> form_data \<Rightarrow> form_data" where
  "onChange x form = form\<lparr>quantity := x\<rparr>"

text \<open>
  The number input, its text field and its steppers are widgets of the component library,
  and \<open>register\<close> belongs to the form library: what they do on a key stroke, a click on a
  stepper, a turn of the mouse wheel or a blur is not decided by this component. The
  component gives the form value \<open>quantity\<close> two writers: the \<open>onChange\<close> prop of the
  number input, which stores the string it is called with, and the handlers that
  \<open>register\<close> attaches to the text field, which store the text of the field. The widget is
  therefore the parameter \<open>NumberInput\<close>: given the props, its own state and a user event,
  it yields its next state and the writes it makes, in order.
\<close>

datatype field_write = by_onChange string | by_register string

definition apply_write :: "form_data \<Rightarrow> field_write \<Rightarrow> form_data" where
  "apply_write form w =
     (case w of
        by_onChange x \<Rightarrow> onChange x form
      | by_register x \<Rightarrow> form\<lparr>quantity := x\<rparr>)"

definition written :: "field_write \<Rightarrow> string" where
  "written w = (case w of by_onChange x \<Rightarrow> x | by_register x \<Rightarrow> x)"

definition field_step ::
  "(number_input_props \<Rightarrow> 'w \<Rightarrow> 'ev \<Rightarrow> 'w \<times> field_write list) \<Rightarrow> number_input_props
     \<Rightarrow> 'w \<times> form_data \<Rightarrow> 'ev \<Rightarrow> 'w \<times> form_data" where
  "field_step NumberInput props st ev =
     (case NumberInput props (fst st) ev of
        (w', ws) \<Rightarrow> (w', foldl apply_write (snd st) ws))"

definition quantity_field ::
  "(number_input_props \<Rightarrow> 'w \<Rightarrow> 'ev \<Rightarrow> 'w \<times> field_write list) \<Rightarrow> offer \<Rightarrow> 'w \<Rightarrow> 'ev list
     \<Rightarrow> 'w \<times> form_data" where
  "quantity_field NumberInput off w0 evs =
     foldl (field_step NumberInput (quantity_input_props off)) (w0, defaultValues off) evs"

text \<open>All the writes the widget makes over a run of user events, in order.\<close>

fun field_writes ::
  "(number_input_props \<Rightarrow> 'w \<Rightarrow> 'ev \<Rightarrow> 'w \<times> field_write list) \<Rightarrow> number_input_props \<Rightarrow> 'w
     \<Rightarrow> 'ev list \<Rightarrow> field_write list" where
  "field_writes NumberInput props w [] = []"
| "field_writes NumberInput props w (ev # evs) =
     (case NumberInput props w ev of
        (w', ws) \<Rightarrow> ws @ field_writes NumberInput props w' evs)"

text \<open>
  A stand-in for the widget, used to run the definitions on typed text: it keeps the
  characters that can occur in a number, drops the others, and reports the result through
  \<open>onChange\<close> without regard to the bounds.
\<close>

definition is_number_char :: "char \<Rightarrow> bool" where
  "is_number_char c = (is_digit c \<or> c \<in> {CHR ''+'', CHR ''-'', CHR ''.'', CHR ''e'', CHR ''E''})"

definition typing_input :: "number_input_props \<Rightarrow> unit \<Rightarrow> string \<Rightarrow> unit \<times> field_write list" where
  "typing_input props w typed = ((), [by_onChange (filter is_number_char typed)])"

text \<open>
  The bound the quantity is said to respect: the held text reads as a number between 1 and
  \<open>parseInt(offer.availableQuantity, 10)\<close>.
\<close>

definition within_supply :: "offer \<Rightarrow> form_data \<Rightarrow> bool" where
  "within_supply off form =
     (number_le (Num 1) (parseInt10 (quantity form))
      \<and> number_le (parseInt10 (quantity form)) (parseInt10 (availableQuantity off)))"

subsection \<open>Submitting the form\<close>

text \<open>
  \<^verbatim>\<open><form onSubmit={onSubmit}>\<close>
  \<open>handleSubmit\<close> of the form library validates the registered fields before it calls the
  callback it wraps: \<open>quantity\<close> is registered as required, so with an empty text the
  callback is not called.
\<close>

definition handleSubmit :: "(string \<Rightarrow> action) \<Rightarrow> form_data \<Rightarrow> action" where
  "handleSubmit callback form =
     (if quantity form = [] then (\<lambda>s. (Inr (), s)) else callback (quantity form))"

text \<open>
  Besides a click on a submit button, a form is submitted by the Enter key in a text field
  (implicit submission): through the submit button of the form when it has one, unless that
  button is disabled; directly when it has none and the field is its only one. The quantity
  field is the only field of this form and is rendered when \<open>multiple\<close> is set.
\<close>

definition press_enter :: "bool \<Rightarrow> button \<Rightarrow> click_effect" where
  "press_enter multiple b =
     (if \<not> multiple then no_effect
      else (case button_type b of
              type_submit \<Rightarrow> if disabled b \<or> isLoading b then no_effect else submits_form
            | type_button \<Rightarrow> submits_form))"

datatype user_event = clicks_button | presses_enter

text \<open>
  One user event on the rendered form: the button is the one the render yields, and a
  submission runs \<open>onSubmit\<close> through \<open>handleSubmit\<close>.
\<close>

definition checkout_event ::
  "(string \<Rightarrow> js_error + int) \<Rightarrow> (js_error \<Rightarrow> string) \<Rightarrow> (offer \<Rightarrow> string \<Rightarrow> js_error + unit)
     \<Rightarrow> js_error + unit \<Rightarrow> string option \<Rightarrow> int option \<Rightarrow> int \<Rightarrow> offer option \<Rightarrow> bool \<Rightarrow> bool
     \<Rightarrow> form_data \<Rightarrow> user_event \<Rightarrow> action" where
  "checkout_event BigNumber_from formatError acceptOffer onPurchased account balance priceUnit
       offer multiple isSubmitting form ev s =
     (case render_checkout_button BigNumber_from account balance priceUnit (quantity form)
             isSubmitting of
        Inl e \<Rightarrow> (Inl e, s)
      | Inr b \<Rightarrow>
          (case (case ev of clicks_button \<Rightarrow> click b | presses_enter \<Rightarrow> press_enter multiple b) of
             submits_form \<Rightarrow>
               handleSubmit (onSubmit formatError acceptOffer onPurchased offer) form s
           | _ \<Rightarrow> (Inr (), s)))"

section \<open>The bids-placed page\<close>

subsection \<open>\<open>handleCancelOffer\<close>\<close>

text \<open>
  \<^verbatim>\<open>
  const handleCancelOffer = useCallback(
    async (id: string) => {
      try {
        onOpen()
        await cancel({ id })
        toast({ title: t('user.bid-placed.notifications.canceled'), status: 'success' })
        await refetch()
      } catch (e) {
        toast({ title: formatError(e), status: 'error' })
      } finally {
        onClose()
      }
    }, ...)
  \<close>
  \<open>cancel\<close> is the hook of \<open>useCancelOffer\<close>, \<open>refetch\<close> comes from the GraphQL query
  hook, \<open>t\<close> is the translation function; their results are parameters.
\<close>

definition handleCancelOffer ::
  "(js_error \<Rightarrow> string) \<Rightarrow> (string \<Rightarrow> string) \<Rightarrow> (string \<Rightarrow> js_error + unit) \<Rightarrow> js_error + unit
     \<Rightarrow> string \<Rightarrow> action" where
  "handleCancelOffer formatError t cancel refetch bid =
     try_catch_finally
       (and_then onOpen
         (and_then (await (CancelOffer bid) (cancel bid))
           (and_then
             (toast \<lparr>title = t ''user.bid-placed.notifications.canceled'', status = success\<rparr>)
             (await Refetch refetch))))
       (\<lambda>e. toast \<lparr>title = formatError e, status = error\<rparr>)
       onClose"

text \<open>
  The awaited calls of a log that go to the hook the action is delegated to
  (\<open>acceptOffer\<close>, \<open>cancel\<close>).
\<close>

fun is_hook_await :: "event \<Rightarrow> bool" where
  "is_hook_await (Await (AcceptOffer _ _)) = True"
| "is_hook_await (Await (CancelOffer _)) = True"
| "is_hook_await _ = False"

definition hook_awaits :: "event list \<Rightarrow> nat" where
  "hook_awaits evs = length (filter is_hook_await evs)"

subsection \<open>A row of the table\<close>

text \<open>
  A \<open>Date\<close> holds a time value in milliseconds, or is an invalid date, whose time value is
  \<open>NaN\<close>. Comparing two dates compares their time values, and a comparison with \<open>NaN\<close>
  is false. \<open>new Date()\<close> is always valid, so the current time is an \<open>int\<close>.
\<close>

datatype js_date = Date int | InvalidDate

definition date_le :: "js_date \<Rightarrow> int \<Rightarrow> bool" where
  "date_le d now = (case d of Date ms \<Rightarrow> ms \<le> now | InvalidDate \<Rightarrow> False)"

definition date_gt :: "js_date \<Rightarrow> int \<Rightarrow> bool" where
  "date_gt d now = (case d of Date ms \<Rightarrow> now < ms | InvalidDate \<Rightarrow> False)"

text \<open>
  The fields of a converted bid that the row reads; the prices are \<open>BigNumber\<close>s. The
  members of \<open>CancelOfferStep\<close> other than \<open>INITIAL\<close> belong to the external hook package
  and are not named by the page.
\<close>

record bid =
  bid_id :: string
  bid_unitPrice :: int
  bid_availableQuantity :: int
  bid_expiredAt :: "js_date option"
  bid_asset_id :: string

datatype CancelOfferStep = INITIAL | OTHER_STEP nat

text \<open>
  \<^verbatim>\<open>amount={item.unitPrice.mul(item.availableQuantity)}\<close>
\<close>

definition price_amount :: "bid \<Rightarrow> int" where
  "price_amount item = bid_unitPrice item * bid_availableQuantity item"

text \<open>
  \<^verbatim>\<open>
  {item.expiredAt && item.expiredAt <= new Date()
    ? t('user.bid-placed.status.expired')
    : t('user.bid-placed.status.active')}
  \<close>
  The cell shows \<open>t\<close> of the key computed here.
\<close>

definition status_key :: "int \<Rightarrow> bid \<Rightarrow> string" where
  "status_key now item =
     (if (case bid_expiredAt item of None \<Rightarrow> False | Some d \<Rightarrow> date_le d now)
      then ''user.bid-placed.status.expired''
      else ''user.bid-placed.status.active'')"

text \<open>
  \<^verbatim>\<open>
  {ownerLoggedIn && (
    <>
      {!item.expiredAt || item.expiredAt > new Date() ? (
        <Button ... disabled={activeStep !== CancelOfferStep.INITIAL}
                onClick={() => handleCancelOffer(item.id)}> ... </Button>
      ) : (
        <Button as={Link} href={`/tokens/${item.asset.id}/bid`} ...> ... </Button>
      )}
    </>
  )}
  \<close>
  The cancel button carries the argument its \<open>onClick\<close> passes to \<open>handleCancelOffer\<close>.
\<close>

datatype actions = no_actions | cancel_button bool string | rebid_link string

definition row_actions :: "bool \<Rightarrow> CancelOfferStep \<Rightarrow> int \<Rightarrow> bid \<Rightarrow> actions" where
  "row_actions ownerLoggedIn activeStep now item =
     (if ownerLoggedIn
      then (if (case bid_expiredAt item of None \<Rightarrow> True | Some d \<Rightarrow> date_gt d now)
            then cancel_button (activeStep \<noteq> INITIAL) (bid_id item)
            else rebid_link (''/tokens/'' @ bid_asset_id item @ ''/bid''))
      else no_actions)"

record row =
  row_key :: string
  row_price :: int
  row_status :: string
  row_actions_cell :: actions

text \<open>
  Each of the two date tests of a row evaluates \<open>new Date()\<close> for itself: the status cell
  at \<open>now1\<close>, the action cell at \<open>now2\<close>.
\<close>

definition render_row :: "bool \<Rightarrow> CancelOfferStep \<Rightarrow> int \<Rightarrow> int \<Rightarrow> bid \<Rightarrow> row" where
  "render_row ownerLoggedIn activeStep now1 now2 item =
     \<lparr>row_key = bid_id item,
      row_price = price_amount item,
      row_status = status_key now1 item,
      row_actions_cell = row_actions ownerLoggedIn activeStep now2 item\<rparr>"

text \<open>
  \<^verbatim>\<open>{bids.map((item) => ( <Tr ...> ... </Tr> ))}\<close>
  \<open>clock k\<close> is the time the \<open>k\<close>-th evaluation of \<open>new Date()\<close> in the render returns.
\<close>

fun table_rows :: "bool \<Rightarrow> CancelOfferStep \<Rightarrow> (nat \<Rightarrow> int) \<Rightarrow> nat \<Rightarrow> bid list \<Rightarrow> row list" where
  "table_rows ownerLoggedIn activeStep clock k [] = []"
| "table_rows ownerLoggedIn activeStep clock k (item # items) =
     render_row ownerLoggedIn activeStep (clock k) (clock (Suc k)) item
       # table_rows ownerLoggedIn activeStep clock (Suc (Suc k)) items"

text \<open>
  A click on what the action cell holds: a cancel button that is not disabled runs its
  \<open>onClick\<close>; the rebid link navigates and calls nothing.
\<close>

definition click_actions ::
  "(js_error \<Rightarrow> string) \<Rightarrow> (string \<Rightarrow> string) \<Rightarrow> (string \<Rightarrow> js_error + unit) \<Rightarrow> js_error + unit
     \<Rightarrow> actions \<Rightarrow> action" where
  "click_actions formatError t cancel refetch cell =
     (case cell of
        cancel_button dis bid \<Rightarrow>
          if dis then (\<lambda>s. (Inr (), s))
          else handleCancelOffer formatError t cancel refetch bid
      | _ \<Rightarrow> (\<lambda>s. (Inr (), s)))"

subsection \<open>\<open>getServerSideProps\<close>\<close>

text \<open>
  A route or query parameter is \<open>string | string[]\<close>. \<open>context.params\<close> may be
  undefined, and so may its \<open>id\<close>. The rest of the request is read only by the helpers of
  the \<open>params\<close> module.
\<close>

datatype param = Single string | Multi "string list"

record 'q ssr_context =
  params :: "(string \<Rightarrow> param option) option"
  request :: 'q

text \<open>
  \<open>String.prototype.toLowerCase\<close> is a builtin of the language that works on all of
  Unicode: it is the parameter \<open>toLowerCase\<close> of what follows. \<open>ascii_toLowerCase\<close>, which
  lowers the letters A to Z, stands in for it where the definitions are run on a hexadecimal
  address.
\<close>

definition lower_char :: "char \<Rightarrow> char" where
  "lower_char c =
     (if (65::nat) \<le> of_char c \<and> of_char c \<le> (90::nat) then char_of (of_char c + (32::nat))
      else c)"

definition ascii_toLowerCase :: "string \<Rightarrow> string" where
  "ascii_toLowerCase str = map lower_char str"

text \<open>
  \<^verbatim>\<open>
  const userAddress = context.params?.id
    ? Array.isArray(context.params.id)
      ? context.params.id[0].toLowerCase()
      : context.params.id.toLowerCase()
    : null
  \<close>
  An empty string is falsy, an array is truthy even when empty, and calling a method on the
  missing first element of an empty array throws a \<open>TypeError\<close>.
\<close>

definition route_userAddress ::
  "(string \<Rightarrow> string) \<Rightarrow> 'q ssr_context \<Rightarrow> js_error + string option" where
  "route_userAddress toLowerCase ctx =
     (case params ctx of
        None \<Rightarrow> Inr None
      | Some ps \<Rightarrow>
          (case ps ''id'' of
             None \<Rightarrow> Inr None
           | Some (Single str) \<Rightarrow> if str = [] then Inr None else Inr (Some (toLowerCase str))
           | Some (Multi []) \<Rightarrow> Inl (Error ''TypeError: cannot read toLowerCase of undefined'')
           | Some (Multi (str # _)) \<Rightarrow> Inr (Some (toLowerCase str))))"

text \<open>
  The helpers \<open>getLimit\<close>, \<open>getPage\<close>, \<open>getOrder\<close> and \<open>getOffset\<close> are imported from
  the \<open>params\<close> module, which is not part of the files at hand: they are parameters, and
  each may throw.
\<close>

record 'q params_module =
  getLimit :: "'q ssr_context \<Rightarrow> int \<Rightarrow> js_error + int"
  getPage :: "'q ssr_context \<Rightarrow> js_error + int"
  getOrder :: "'q ssr_context \<Rightarrow> string \<Rightarrow> js_error + string"
  getOffset :: "'q ssr_context \<Rightarrow> int \<Rightarrow> js_error + int"

text \<open>
  The object of query variables, as the names and values of its properties in the order the
  literal lists them; what the query answers; the props of the page.
\<close>

datatype js_value = JNumber int | JString string | JDate int

type_synonym variables = "(string \<times> js_value) list"

record bids_account =
  bids_account_name :: "string option"
  bids_account_description :: "string option"
  bids_account_image :: "string option"

record bids_data =
  bids_account :: "bids_account option"

record query_result =
  result_data :: "bids_data option"
  result_error :: "js_error option"

record meta =
  meta_title :: string
  meta_description :: string
  meta_image :: string

record props =
  page :: int
  limit :: int
  offset :: int
  orderBy :: string
  userAddress :: string
  now_json :: string
  meta :: meta

definition bind_result :: "'e + 'a \<Rightarrow> ('a \<Rightarrow> 'e + 'b) \<Rightarrow> 'e + 'b" where
  "bind_result r f = (case r of Inl e \<Rightarrow> Inl e | Inr v \<Rightarrow> f v)"

text \<open>\<open>a || b\<close> on a nullable string: \<open>b\<close> when \<open>a\<close> is null, undefined or empty.\<close>

definition or_else :: "string option \<Rightarrow> string \<Rightarrow> string" where
  "or_else a b = (case a of None \<Rightarrow> b | Some str \<Rightarrow> if str = [] then b else str)"

text \<open>
  \<^verbatim>\<open>
  invariant(userAddress, 'userAddress is falsy')
  const limit = getLimit(context, environment.PAGINATION_LIMIT)
  const page = getPage(context)
  const orderBy = getOrder<OfferOpenBuysOrderBy>(context, 'CREATED_AT_DESC')
  const offset = getOffset(context, environment.PAGINATION_LIMIT)
  const now = new Date()
  const { data, error } = await client.query<FetchUserBidsPlacedQuery>({
    query: FetchUserBidsPlacedDocument,
    variables: { limit, offset, orderBy, address: userAddress, now },
  })
  if (error) throw error
  if (!data) throw new Error('data is falsy')
  return {
    props: {
      page, limit, offset, orderBy, userAddress,
      now: now.toJSON(),
      meta: {
        title: data.account?.name || userAddress,
        description: data.account?.description || '',
        image: data.account?.image || '',
      },
    },
  }
  \<close>
  \<open>invariant\<close> throws when \<open>userAddress\<close> is falsy: null or the empty string.
  The function is the handler given to \<open>wrapServerSideProps\<close>. It returns what the handler
  returns or throws, together with the variables of every query it sent.
  \<open>PAGINATION_LIMIT\<close> (a constant of the environment), \<open>client.query\<close>, the current time,
  \<open>Date.prototype.toJSON\<close> and \<open>String.prototype.toLowerCase\<close> are parameters.
\<close>

definition getServerSideProps ::
  "'q params_module \<Rightarrow> int \<Rightarrow> (variables \<Rightarrow> js_error + query_result) \<Rightarrow> int \<Rightarrow> (int \<Rightarrow> string)
     \<Rightarrow> (string \<Rightarrow> string) \<Rightarrow> 'q ssr_context \<Rightarrow> (js_error + props) \<times> variables list" where
  "getServerSideProps pm PAGINATION_LIMIT client_query now toJSON toLowerCase ctx =
     (case
        bind_result (route_userAddress toLowerCase ctx) (\<lambda>ua.
          case ua of
            None \<Rightarrow> Inl (Error ''userAddress is falsy'')
          | Some addr \<Rightarrow>
              if addr = [] then Inl (Error ''userAddress is falsy'')
              else
                bind_result (getLimit pm ctx PAGINATION_LIMIT) (\<lambda>lim.
                bind_result (getPage pm ctx) (\<lambda>pg.
                bind_result (getOrder pm ctx ''CREATED_AT_DESC'') (\<lambda>ord.
                bind_result (getOffset pm ctx PAGINATION_LIMIT) (\<lambda>off.
                  Inr (addr, lim, pg, ord, off))))))
      of
        Inl e \<Rightarrow> (Inl e, [])
      | Inr (addr, lim, pg, ord, off) \<Rightarrow>
          (let vars = [(''limit'', JNumber lim), (''offset'', JNumber off),
                       (''orderBy'', JString ord), (''address'', JString addr),
                       (''now'', JDate now)]
           in case client_query vars of
                Inl e \<Rightarrow> (Inl e, [vars])
              | Inr res \<Rightarrow>
                  (case result_error res of
                     Some e \<Rightarrow> (Inl e, [vars])
                   | None \<Rightarrow>
                       (case result_data res of
                          None \<Rightarrow> (Inl (Error ''data is falsy''), [vars])
                        | Some d \<Rightarrow>
                            (Inr \<lparr>page = pg, limit = lim, offset = off, orderBy = ord,
                                  userAddress = addr, now_json = toJSON now,
                                  meta = \<lparr>meta_title =
                                            or_else (case bids_account d of None \<Rightarrow> None
                                                     | Some a \<Rightarrow> bids_account_name a) addr,
                                          meta_description =
                                            or_else (case bids_account d of None \<Rightarrow> None
                                                     | Some a \<Rightarrow> bids_account_description a) [],
                                          meta_image =
                                            or_else (case bids_account d of None \<Rightarrow> None
                                                     | Some a \<Rightarrow> bids_account_image a) []\<rparr>\<rparr>,
                             [vars])))))"

section \<open>The token-creation page\<close>

text \<open>
  \<^verbatim>\<open>
  const creator = useMemo(
    () => ({
      address: data?.account?.address || '0x',
      image: data?.account?.image || undefined,
      name: data?.account?.name || undefined,
      verified: data?.account?.verification?.status === 'VALIDATED',
    }),
    [data?.account],
  )
  \<close>
  \<open>data\<close> is undefined until the account query has answered.
\<close>

record verification =
  verification_status :: string

record fetched_account =
  account_address :: string
  account_image :: "string option"
  account_name :: "string option"
  account_verification :: "verification option"

record account_data =
  fetched :: "fetched_account option"

record creator =
  creator_address :: string
  creator_image :: "string option"
  creator_name :: "string option"
  verified :: bool

definition or_undefined :: "string option \<Rightarrow> string option" where
  "or_undefined a = (if truthy a then a else None)"

definition creator :: "account_data option \<Rightarrow> creator" where
  "creator data =
     (case (case data of None \<Rightarrow> None | Some d \<Rightarrow> fetched d) of
        None \<Rightarrow>
          \<lparr>creator_address = ''0x'', creator_image = None, creator_name = None,
           verified = False\<rparr>
      | Some a \<Rightarrow>
          \<lparr>creator_address = or_else (Some (account_address a)) ''0x'',
           creator_image = or_undefined (account_image a),
           creator_name = or_undefined (account_name a),
           verified = (case account_verification a of
                         None \<Rightarrow> False
                       | Some v \<Rightarrow> verification_status v = ''VALIDATED'')\<rparr>)"

text \<open>
  \<^verbatim>\<open>
  if (environment.RESTRICT_TO_VERIFIED_ACCOUNT && !creator.verified) {
    return ( <Layout> <BackButton/> <Heading>...</Heading>
             ... t('asset.restricted.title') ... </Layout> )
  }
  return ( <Layout> <BackButton/> <Heading>...</Heading>
           ... <TokenCard creator={creator} .../> <TokenFormCreate multiple={multiple} .../>
           </Layout> )
  \<close>
  The page is the list of what its layout holds; \<open>RESTRICT_TO_VERIFIED_ACCOUNT\<close> is a
  constant of the environment and \<open>t\<close> the translation function, both parameters.
\<close>

datatype element =
    BackButton
  | Heading string
  | RestrictedNotice string
  | TokenCard creator
  | TokenFormCreate bool

definition CreatePage :: "bool \<Rightarrow> (string \<Rightarrow> string) \<Rightarrow> account_data option \<Rightarrow> bool \<Rightarrow> element list" where
  "CreatePage RESTRICT_TO_VERIFIED_ACCOUNT t data multiple =
     (if RESTRICT_TO_VERIFIED_ACCOUNT \<and> \<not> verified (creator data)
      then [BackButton, Heading (t ''asset.typeSelector.title''),
            RestrictedNotice (t ''asset.restricted.title'')]
      else [BackButton,
            Heading (if multiple then t ''asset.form.title.multiple''
                     else t ''asset.form.title.single''),
            TokenCard (creator data),
            TokenFormCreate multiple])"

section \<open>Properties\<close>

text \<open>
  C1. In the checkout form, \<open>canPurchase\<close> is true if and only if the fetched balance and
  the entered quantity are both present and the balance is at least the unit price times the
  quantity, in exact integer arithmetic; when the balance has not loaded or the quantity
  field is empty, \<open>canPurchase\<close> is false.
\<close>

theorem canPurchase_iff:
  "(canPurchase BigNumber_from balance priceUnit qty = Inr True \<longleftrightarrow>
      (\<exists>b q. balance = Some b \<and> qty \<noteq> [] \<and> BigNumber_from qty = Inr q
             \<and> priceUnit * q \<le> b))
   \<and> canPurchase BigNumber_from None priceUnit qty = Inr False
   \<and> canPurchase BigNumber_from balance priceUnit [] = Inr False"
  by (auto simp: canPurchase_def split: option.splits sum.splits)

theorem canPurchase_iff_witness:
  "canPurchase decimal_from (Some 100) 30 ''3'' = Inr True
   \<and> canPurchase decimal_from None 30 ''3'' = Inr False
   \<and> canPurchase decimal_from (Some 100) 30 [] = Inr False"
  using canPurchase_iff [of decimal_from "Some 100" 30 "''3''"]
  by (simp add: decimal_from_def)

subsection \<open>The event handlers\<close>

lemmas action_defs = onSubmit_def handleCancelOffer_def try_catch_finally_def and_then_def
  onOpen_def onClose_def toast_def await_def invoke_def throw_def

lemma onSubmit_hook_throws:
  "acceptOffer off qty = Inl e \<Longrightarrow>
   onSubmit formatError acceptOffer onPurchased (Some off) qty s =
     (Inr (), s\<lparr>isOpen := False,
               toasts := toasts s @ [\<lparr>title = formatError e, status = error\<rparr>],
               calls := calls s @ [Await (AcceptOffer off qty)]\<rparr>)"
  by (simp add: action_defs)

lemma onSubmit_hook_resolves:
  "acceptOffer off qty = Inr () \<Longrightarrow>
   onSubmit formatError acceptOffer onPurchased (Some off) qty s =
     (Inr (), s\<lparr>isOpen := False,
               toasts := toasts s @ (case onPurchased of Inl e \<Rightarrow> [\<lparr>title = formatError e, status = error\<rparr>] | Inr _ \<Rightarrow> []),
               calls := calls s @ [Await (AcceptOffer off qty), Invoke OnPurchased]\<rparr>)"
  by (simp add: action_defs split: sum.splits)

lemma onSubmit_closes:
  "isOpen (snd (onSubmit formatError acceptOffer onPurchased (Some off) qty s)) = False"
  by (cases "acceptOffer off qty") (simp_all add: onSubmit_hook_throws onSubmit_hook_resolves)

lemma handleCancelOffer_hook_throws:
  "cancel bid = Inl e \<Longrightarrow>
   handleCancelOffer formatError t cancel refetch bid s =
     (Inr (), s\<lparr>isOpen := False,
               toasts := toasts s @ [\<lparr>title = formatError e, status = error\<rparr>],
               calls := calls s @ [Await (CancelOffer bid)]\<rparr>)"
  by (simp add: action_defs)

lemma handleCancelOffer_hook_resolves:
  "cancel bid = Inr () \<Longrightarrow>
   handleCancelOffer formatError t cancel refetch bid s =
     (Inr (), s\<lparr>isOpen := False,
               toasts := toasts s @ \<lparr>title = t ''user.bid-placed.notifications.canceled'', status = success\<rparr>
                  # (case refetch of Inl e \<Rightarrow> [\<lparr>title = formatError e, status = error\<rparr>] | Inr _ \<Rightarrow> []),
               calls := calls s @ [Await (CancelOffer bid), Await Refetch]\<rparr>)"
  by (simp add: action_defs split: sum.splits)

lemma handleCancelOffer_closes:
  "isOpen (snd (handleCancelOffer formatError t cancel refetch bid s)) = False"
  by (cases "cancel bid") (simp_all add: handleCancelOffer_hook_throws handleCancelOffer_hook_resolves)

text \<open>
  C2. For both actions that await an external hook (submitting the checkout form awaits
  \<open>acceptOffer\<close>, canceling a bid awaits \<open>cancel\<close>): when the awaited hook throws \<open>e\<close>,
  the handler catches it and returns normally, the only toast added has the title
  \<open>formatError e\<close> and the status \<open>error\<close>, and nothing is called after the hook, so
  neither \<open>onPurchased\<close> nor the success toast and \<open>refetch\<close> run; and whatever the hook
  and the calls after it do, the modal is closed when the handler ends.
\<close>

theorem hook_error_toasted_modal_closed:
  "(acceptOffer off qty = Inl e \<longrightarrow>
      onSubmit formatError acceptOffer onPurchased (Some off) qty s =
        (Inr (), s\<lparr>isOpen := False,
                  toasts := toasts s @ [\<lparr>title = formatError e, status = error\<rparr>],
                  calls := calls s @ [Await (AcceptOffer off qty)]\<rparr>))
   \<and> isOpen (snd (onSubmit formatError acceptOffer onPurchased (Some off) qty s)) = False
   \<and> (cancel bid = Inl e \<longrightarrow>
      handleCancelOffer formatError t cancel refetch bid s =
        (Inr (), s\<lparr>isOpen := False,
                  toasts := toasts s @ [\<lparr>title = formatError e, status = error\<rparr>],
                  calls := calls s @ [Await (CancelOffer bid)]\<rparr>))
   \<and> isOpen (snd (handleCancelOffer formatError t cancel refetch bid s)) = False"
  using onSubmit_hook_throws [of acceptOffer off qty e formatError onPurchased s]
    handleCancelOffer_hook_throws [of cancel bid e formatError t refetch s]
    onSubmit_closes [of formatError acceptOffer onPurchased off qty s]
    handleCancelOffer_closes [of formatError t cancel refetch bid s]
  by blast

theorem hook_error_toasted_modal_closed_witness:
  "onSubmit (\<lambda>e. case e of Error m \<Rightarrow> m) (\<lambda>off q. Inl (Error ''rejected'')) (Inr ())
     (Some \<lparr>offer_id = ''7'', unitPrice = ''10'', availableQuantity = ''5''\<rparr>) ''2''
     \<lparr>isOpen = False, toasts = [], calls = []\<rparr>
   = (Inr (), \<lparr>isOpen = False, toasts = [\<lparr>title = ''rejected'', status = error\<rparr>],
              calls = [Await (AcceptOffer
                        \<lparr>offer_id = ''7'', unitPrice = ''10'', availableQuantity = ''5''\<rparr> ''2'')]\<rparr>)
   \<and> handleCancelOffer (\<lambda>e. case e of Error m \<Rightarrow> m) (\<lambda>k. k) (\<lambda>b. Inl (Error ''rejected''))
       (Inr ()) ''9'' \<lparr>isOpen = False, toasts = [], calls = []\<rparr>
   = (Inr (), \<lparr>isOpen = False, toasts = [\<lparr>title = ''rejected'', status = error\<rparr>],
              calls = [Await (CancelOffer ''9'')]\<rparr>)"
  using hook_error_toasted_modal_closed
    [of "\<lambda>off q. Inl (Error ''rejected'')"
        "\<lparr>offer_id = ''7'', unitPrice = ''10'', availableQuantity = ''5''\<rparr>" "''2''"
        "Error ''rejected''" "\<lambda>e. case e of Error m \<Rightarrow> m" "Inr ()"
        "\<lparr>isOpen = False, toasts = [], calls = []\<rparr>"
        "\<lambda>b. Inl (Error ''rejected'')" "''9''" "\<lambda>k. k" "Inr ()"]
  by simp


text \<open>
  C3, as stated, fails for the checkout form: when \<open>acceptOffer\<close> and \<open>onPurchased\<close> both
  succeed, the form has shown no toast.
\<close>

theorem checkout_success_shows_no_toast:
  "toasts (snd (onSubmit (\<lambda>e. ''failed'') (\<lambda>off q. Inr ()) (Inr ())
     (Some \<lparr>offer_id = ''7'', unitPrice = ''10'', availableQuantity = ''5''\<rparr>) ''2''
     \<lparr>isOpen = False, toasts = [], calls = []\<rparr>)) = []"
  by (simp add: onSubmit_hook_resolves)

text \<open>
  C3, amended. Each of the two actions awaits exactly one promise of the hook it is delegated
  to. When that promise fails, one toast of status \<open>error\<close> is shown in both components.
  When it succeeds, the bids-placed page shows its success toast (and after it an error
  toast if \<open>refetch\<close> then fails), while the checkout form shows no success toast: it calls
  \<open>onPurchased\<close>, and shows a toast, of status \<open>error\<close>, only if \<open>onPurchased\<close> throws.
\<close>

theorem one_hook_await_and_toasts:
  "hook_awaits (calls (snd (onSubmit formatError acceptOffer onPurchased (Some off) qty s)))
     = Suc (hook_awaits (calls s))
   \<and> hook_awaits (calls (snd (handleCancelOffer formatError t cancel refetch bid s)))
     = Suc (hook_awaits (calls s))
   \<and> (acceptOffer off qty = Inl e \<longrightarrow>
        toasts (snd (onSubmit formatError acceptOffer onPurchased (Some off) qty s))
          = toasts s @ [\<lparr>title = formatError e, status = error\<rparr>])
   \<and> (cancel bid = Inl e \<longrightarrow>
        toasts (snd (handleCancelOffer formatError t cancel refetch bid s))
          = toasts s @ [\<lparr>title = formatError e, status = error\<rparr>])
   \<and> (cancel bid = Inr () \<longrightarrow>
        toasts (snd (handleCancelOffer formatError t cancel refetch bid s))
          = toasts s @ \<lparr>title = t ''user.bid-placed.notifications.canceled'', status = success\<rparr>
              # (case refetch of
                   Inl e' \<Rightarrow> [\<lparr>title = formatError e', status = error\<rparr>]
                 | Inr _ \<Rightarrow> []))
   \<and> (acceptOffer off qty = Inr () \<longrightarrow>
        toasts (snd (onSubmit formatError acceptOffer onPurchased (Some off) qty s))
          = toasts s @ (case onPurchased of
                          Inl e' \<Rightarrow> [\<lparr>title = formatError e', status = error\<rparr>]
                        | Inr _ \<Rightarrow> [])
        \<and> calls (snd (onSubmit formatError acceptOffer onPurchased (Some off) qty s))
            = calls s @ [Await (AcceptOffer off qty), Invoke OnPurchased])"
proof -
  have a: "hook_awaits (calls (snd (onSubmit formatError acceptOffer onPurchased (Some off) qty s)))
     = Suc (hook_awaits (calls s))"
    by (cases "acceptOffer off qty")
      (simp_all add: onSubmit_hook_throws onSubmit_hook_resolves hook_awaits_def)
  have b: "hook_awaits (calls (snd (handleCancelOffer formatError t cancel refetch bid s)))
     = Suc (hook_awaits (calls s))"
    by (cases "cancel bid")
      (simp_all add: handleCancelOffer_hook_throws handleCancelOffer_hook_resolves hook_awaits_def)
  show ?thesis
    using a b
    by (simp add: onSubmit_hook_throws onSubmit_hook_resolves
        handleCancelOffer_hook_throws handleCancelOffer_hook_resolves)
qed

theorem one_hook_await_and_toasts_witness:
  "toasts (snd (handleCancelOffer (\<lambda>e. case e of Error m \<Rightarrow> m) (\<lambda>k. k) (\<lambda>b. Inl (Error ''rejected''))
       (Inr ()) ''9'' \<lparr>isOpen = False, toasts = [], calls = []\<rparr>))
     = [\<lparr>title = ''rejected'', status = error\<rparr>]
   \<and> toasts (snd (onSubmit (\<lambda>e. case e of Error m \<Rightarrow> m) (\<lambda>off q. Inl (Error ''rejected'')) (Inr ())
     (Some \<lparr>offer_id = ''7'', unitPrice = ''10'', availableQuantity = ''5''\<rparr>) ''2''
     \<lparr>isOpen = False, toasts = [], calls = []\<rparr>))
     = [\<lparr>title = ''rejected'', status = error\<rparr>]
   \<and> toasts (snd (handleCancelOffer (\<lambda>e. case e of Error m \<Rightarrow> m) (\<lambda>k. k) (\<lambda>b. Inr ())
       (Inr ()) ''9'' \<lparr>isOpen = False, toasts = [], calls = []\<rparr>))
     = [\<lparr>title = ''user.bid-placed.notifications.canceled'', status = success\<rparr>]
   \<and> toasts (snd (onSubmit (\<lambda>e. case e of Error m \<Rightarrow> m) (\<lambda>off q. Inr ()) (Inr ())
     (Some \<lparr>offer_id = ''7'', unitPrice = ''10'', availableQuantity = ''5''\<rparr>) ''2''
     \<lparr>isOpen = False, toasts = [], calls = []\<rparr>)) = []
   \<and> toasts (snd (onSubmit (\<lambda>e. case e of Error m \<Rightarrow> m) (\<lambda>off q. Inr ()) (Inl (Error ''boom''))
     (Some \<lparr>offer_id = ''7'', unitPrice = ''10'', availableQuantity = ''5''\<rparr>) ''2''
     \<lparr>isOpen = False, toasts = [], calls = []\<rparr>)) = [\<lparr>title = ''boom'', status = error\<rparr>]"
  using one_hook_await_and_toasts
    [of "\<lambda>e. case e of Error m \<Rightarrow> m" "\<lambda>off q. Inl (Error ''rejected'')" "Inr ()"
        "\<lparr>offer_id = ''7'', unitPrice = ''10'', availableQuantity = ''5''\<rparr>" "''2''"
        "\<lparr>isOpen = False, toasts = [], calls = []\<rparr>" "\<lambda>k. k"
        "\<lambda>b. Inl (Error ''rejected'')" "Inr ()" "''9''" "Error ''rejected''"]
    one_hook_await_and_toasts
    [of "\<lambda>e. case e of Error m \<Rightarrow> m" "\<lambda>off q. Inr ()" "Inr ()"
        "\<lparr>offer_id = ''7'', unitPrice = ''10'', availableQuantity = ''5''\<rparr>" "''2''"
        "\<lparr>isOpen = False, toasts = [], calls = []\<rparr>" "\<lambda>k. k"
        "\<lambda>b. Inr ()" "Inr ()" "''9''" "Error ''rejected''"]
    one_hook_await_and_toasts
    [of "\<lambda>e. case e of Error m \<Rightarrow> m" "\<lambda>off q. Inr ()" "Inl (Error ''boom'')"
        "\<lparr>offer_id = ''7'', unitPrice = ''10'', availableQuantity = ''5''\<rparr>" "''2''"
        "\<lparr>isOpen = False, toasts = [], calls = []\<rparr>" "\<lambda>k. k"
        "\<lambda>b. Inr ()" "Inr ()" "''9''" "Error ''rejected''"]
  by simp

subsection \<open>The quantity field\<close>

lemma bit_length_bounds:
  "0 < n \<Longrightarrow> 2 ^ (bit_length n - 1) \<le> n \<and> n < 2 ^ bit_length n"
proof (induction n rule: bit_length.induct)
  case (1 n)
  show ?case
  proof (cases "n div 2 = 0")
    case True
    with "1.prems" have "n = 1" by (simp add: div_eq_0_iff)
    then show ?thesis by (simp add: bit_length.simps)
  next
    case False
    then have pos: "0 < n div 2" by simp
    from "1.prems" have n0: "n \<noteq> 0" by simp
    from "1.IH" [OF n0 pos]
    have ih: "2 ^ (bit_length (n div 2) - 1) \<le> n div 2" "n div 2 < 2 ^ bit_length (n div 2)"
      by simp_all
    have bl: "bit_length n = Suc (bit_length (n div 2))"
      using n0 by (subst bit_length.simps) simp
    have blpos: "0 < bit_length (n div 2)"
      using pos by (subst bit_length.simps) simp
    then obtain j where j: "bit_length (n div 2) = Suc j" by (cases "bit_length (n div 2)") auto
    from ih j have "2 * 2 ^ j \<le> 2 * (n div 2)" by simp
    also have "\<dots> \<le> n" by simp
    finally have lo: "2 ^ (bit_length n - 1) \<le> n" using bl j by simp
    from ih(2) have "n < 2 * 2 ^ bit_length (n div 2)" by linarith
    then have hi: "n < 2 ^ bit_length n" using bl by simp
    from lo hi show ?thesis by simp
  qed
qed

lemma bit_length_example: "bit_length 9007199254740993 = 54"
  by (simp add: bit_length.simps)

lemma parseInt10_rounds_to_double:
  "parseInt10 ''9007199254740993'' = Num 9007199254740992"
  by (simp add: parseInt10_def is_space_def is_digit_def digits_number_def round_double_def
      bit_length_example Let_def)

lemma parseInt10_small:
  "parseInt10 ''9'' = Num 9" "parseInt10 ''5'' = Num 5"
  by (simp_all add: parseInt10_def is_space_def is_digit_def digits_number_def round_double_def)

lemma apply_writes_quantity:
  "quantity (foldl apply_write form ws) =
     (if ws = [] then quantity form else written (last ws))"
proof (induction ws arbitrary: form)
  case Nil
  show ?case by simp
next
  case (Cons w ws)
  have "quantity (apply_write form w) = written w"
    by (simp add: apply_write_def written_def onChange_def split: field_write.splits)
  with Cons.IH [of "apply_write form w"] show ?case by simp
qed

lemma field_run_writes:
  "snd (foldl (field_step NumberInput props) (w, form) evs) =
     foldl apply_write form (field_writes NumberInput props w evs)"
proof (induction evs arbitrary: w form)
  case Nil
  show ?case by simp
next
  case (Cons ev evs)
  obtain w' ws where step: "NumberInput props w ev = (w', ws)"
    by (cases "NumberInput props w ev")
  have "field_step NumberInput props (w, form) ev = (w', foldl apply_write form ws)"
    by (simp add: field_step_def step)
  with Cons.IH [of w' "foldl apply_write form ws"] step show ?case by simp
qed

text \<open>
  C4, as stated, fails: with five items on offer, a user who types 9 has a form that holds
  9, which is not between 1 and \<open>parseInt(offer.availableQuantity, 10)\<close>.
\<close>

theorem typed_quantity_exceeds_supply:
  "\<not> within_supply \<lparr>offer_id = ''7'', unitPrice = ''10'', availableQuantity = ''5''\<rparr>
       (snd (quantity_field typing_input
          \<lparr>offer_id = ''7'', unitPrice = ''10'', availableQuantity = ''5''\<rparr> () [''9'']))"
  by (simp add: within_supply_def quantity_field_def field_step_def typing_input_def
      apply_write_def onChange_def is_number_char_def is_digit_def parseInt10_small)

text \<open>
  C4, amended. The quantity field does not clamp the entered value: it gives the number
  input the bounds 1 and \<open>parseInt(offer.availableQuantity, 10)\<close> with clamping on blur
  switched off, and the form holds, unchanged, the string the input wrote last
  (\<open>offer.availableQuantity\<close> before the first write), whether or not it lies within the
  bounds.
\<close>

theorem quantity_field_holds_last_write:
  "clampValueOnBlur (quantity_input_props off) = False
   \<and> min_prop (quantity_input_props off) = 1
   \<and> max_prop (quantity_input_props off) = parseInt10 (availableQuantity off)
   \<and> quantity (snd (quantity_field NumberInput off w0 evs)) =
       (if field_writes NumberInput (quantity_input_props off) w0 evs = []
        then availableQuantity off
        else written (last (field_writes NumberInput (quantity_input_props off) w0 evs)))"
  using field_run_writes [of NumberInput "quantity_input_props off" w0 "defaultValues off" evs]
    apply_writes_quantity
      [of "defaultValues off" "field_writes NumberInput (quantity_input_props off) w0 evs"]
  by (simp add: quantity_field_def quantity_input_props_def defaultValues_def)

theorem quantity_field_holds_last_write_witness:
  "quantity (snd (quantity_field typing_input
      \<lparr>offer_id = ''7'', unitPrice = ''10'', availableQuantity = ''5''\<rparr> ()
      [''3'', ''9a''])) = ''9''
   \<and> quantity (snd (quantity_field typing_input
      \<lparr>offer_id = ''7'', unitPrice = ''10'', availableQuantity = ''5''\<rparr> () [])) = ''5''
   \<and> max_prop (quantity_input_props
        \<lparr>offer_id = ''7'', unitPrice = ''10'', availableQuantity = ''5''\<rparr>) = Num 5"
  using quantity_field_holds_last_write
    [of "\<lparr>offer_id = ''7'', unitPrice = ''10'', availableQuantity = ''5''\<rparr>"
        typing_input "()" "[''3'', ''9a'']"]
    quantity_field_holds_last_write
    [of "\<lparr>offer_id = ''7'', unitPrice = ''10'', availableQuantity = ''5''\<rparr>"
        typing_input "()" "[]"]
  by (simp add: typing_input_def written_def is_number_char_def is_digit_def parseInt10_small)

subsection \<open>The table of bids\<close>

lemma table_rows_length:
  "length (table_rows ownerLoggedIn activeStep clock k bids) = length bids"
  by (induction bids arbitrary: k) simp_all

lemma table_rows_nth:
  "i < length bids \<Longrightarrow>
   table_rows ownerLoggedIn activeStep clock k bids ! i =
     render_row ownerLoggedIn activeStep (clock (k + 2 * i)) (clock (Suc (k + 2 * i))) (bids ! i)"
proof (induction bids arbitrary: k i)
  case Nil
  then show ?case by simp
next
  case (Cons item items)
  show ?case
  proof (cases i)
    case 0
    then show ?thesis by simp
  next
    case (Suc j)
    with Cons.prems have "j < length items" by simp
    from Cons.IH [OF this, of "Suc (Suc k)"] Suc show ?thesis by simp
  qed
qed

text \<open>
  C5. On the bids-placed page, the cancel button of every row that has one is disabled
  exactly when the \<open>activeStep\<close> of the cancel hook differs from \<open>CancelOfferStep.INITIAL\<close>.
  A row seen by the logged-in owner whose bid has not expired has the button: enabled when
  \<open>activeStep\<close> equals \<open>INITIAL\<close>, disabled at every other step. A click on the disabled
  button does nothing, a click on the enabled one runs \<open>handleCancelOffer\<close>.
\<close>

theorem cancel_button_disabled_iff_pending:
  "i < length bids \<Longrightarrow>
   (\<forall>dis b. row_actions_cell (table_rows ownerLoggedIn activeStep clock k bids ! i)
              = cancel_button dis b \<longrightarrow> (dis \<longleftrightarrow> activeStep \<noteq> INITIAL))
   \<and> (ownerLoggedIn
        \<and> (bid_expiredAt (bids ! i) = None
            \<or> (\<exists>ms. bid_expiredAt (bids ! i) = Some (Date ms) \<and> clock (Suc (k + 2 * i)) < ms))
      \<longrightarrow> row_actions_cell (table_rows ownerLoggedIn INITIAL clock k bids ! i)
            = cancel_button False (bid_id (bids ! i))
          \<and> (activeStep \<noteq> INITIAL \<longrightarrow>
               row_actions_cell (table_rows ownerLoggedIn activeStep clock k bids ! i)
                 = cancel_button True (bid_id (bids ! i))))
   \<and> click_actions formatError t cancel refetch (cancel_button True b') s = (Inr (), s)
   \<and> click_actions formatError t cancel refetch (cancel_button False b') s
       = handleCancelOffer formatError t cancel refetch b' s"
  by (auto simp: table_rows_nth render_row_def row_actions_def date_gt_def click_actions_def
      split: if_splits option.splits js_date.splits)

theorem cancel_button_disabled_iff_pending_witness:
  "(0::nat) < length [\<lparr>bid_id = ''b1'', bid_unitPrice = 3, bid_availableQuantity = 2,
                       bid_expiredAt = None, bid_asset_id = ''a1''\<rparr>]
   \<and> row_actions_cell (table_rows True INITIAL (\<lambda>k. 1000) 0
        [\<lparr>bid_id = ''b1'', bid_unitPrice = 3, bid_availableQuantity = 2,
          bid_expiredAt = None, bid_asset_id = ''a1''\<rparr>] ! 0) = cancel_button False ''b1''
   \<and> row_actions_cell (table_rows True (OTHER_STEP 1) (\<lambda>k. 1000) 0
        [\<lparr>bid_id = ''b1'', bid_unitPrice = 3, bid_availableQuantity = 2,
          bid_expiredAt = None, bid_asset_id = ''a1''\<rparr>] ! 0) = cancel_button True ''b1''
   \<and> OTHER_STEP 1 \<noteq> INITIAL"
proof -
  let ?bids = "[\<lparr>bid_id = ''b1'', bid_unitPrice = 3, bid_availableQuantity = 2,
                 bid_expiredAt = None, bid_asset_id = ''a1''\<rparr>]"
  have h1: "(0::nat) < length ?bids" by simp
  from cancel_button_disabled_iff_pending [OF h1, of True "OTHER_STEP 1" "\<lambda>k. 1000" 0] h1
  show ?thesis by simp
qed

text \<open>
  C6. Row actions appear only when the profile owner is logged in. For such a viewer, a bid
  with no expiry date, or with an expiry date strictly after the time of the render, gets a
  cancel button whose click runs \<open>handleCancelOffer\<close> with the id of that bid, and that
  awaits the \<open>cancel\<close> hook with this id before anything else is called; every other bid
  gets a link to \<open>/tokens/<asset id>/bid\<close>.
\<close>

theorem row_actions_by_login_and_expiry:
  "i < length bids \<Longrightarrow>
   row_actions_cell (table_rows ownerLoggedIn activeStep clock k bids ! i) =
     (if \<not> ownerLoggedIn then no_actions
      else if bid_expiredAt (bids ! i) = None
              \<or> (\<exists>ms. bid_expiredAt (bids ! i) = Some (Date ms) \<and> clock (Suc (k + 2 * i)) < ms)
           then cancel_button (activeStep \<noteq> INITIAL) (bid_id (bids ! i))
           else rebid_link (''/tokens/'' @ bid_asset_id (bids ! i) @ ''/bid''))
   \<and> click_actions formatError t cancel refetch (cancel_button False (bid_id (bids ! i))) s
       = handleCancelOffer formatError t cancel refetch (bid_id (bids ! i)) s
   \<and> (\<exists>rest. calls (snd (handleCancelOffer formatError t cancel refetch (bid_id (bids ! i)) s))
               = calls s @ Await (CancelOffer (bid_id (bids ! i))) # rest)"
proof -
  assume i: "i < length bids"
  have cell: "row_actions_cell (table_rows ownerLoggedIn activeStep clock k bids ! i) =
     (if \<not> ownerLoggedIn then no_actions
      else if bid_expiredAt (bids ! i) = None
              \<or> (\<exists>ms. bid_expiredAt (bids ! i) = Some (Date ms) \<and> clock (Suc (k + 2 * i)) < ms)
           then cancel_button (activeStep \<noteq> INITIAL) (bid_id (bids ! i))
           else rebid_link (''/tokens/'' @ bid_asset_id (bids ! i) @ ''/bid''))"
    using i
    by (auto simp: table_rows_nth render_row_def row_actions_def date_gt_def
        split: option.splits js_date.splits)
  have clk: "click_actions formatError t cancel refetch (cancel_button False (bid_id (bids ! i))) s
       = handleCancelOffer formatError t cancel refetch (bid_id (bids ! i)) s"
    by (simp add: click_actions_def)
  have log: "\<exists>rest. calls (snd (handleCancelOffer formatError t cancel refetch (bid_id (bids ! i)) s))
               = calls s @ Await (CancelOffer (bid_id (bids ! i))) # rest"
    by (cases "cancel (bid_id (bids ! i))")
      (simp_all add: handleCancelOffer_hook_throws handleCancelOffer_hook_resolves)
  from cell clk log show ?thesis by blast
qed

theorem row_actions_by_login_and_expiry_witness:
  "(1::nat) < length
      [\<lparr>bid_id = ''b1'', bid_unitPrice = 3, bid_availableQuantity = 2,
        bid_expiredAt = None, bid_asset_id = ''a1''\<rparr>,
       \<lparr>bid_id = ''b2'', bid_unitPrice = 4, bid_availableQuantity = 1,
        bid_expiredAt = Some (Date 500), bid_asset_id = ''a2''\<rparr>]
   \<and> row_actions_cell (table_rows True INITIAL (\<lambda>k. 1000) 0
        [\<lparr>bid_id = ''b1'', bid_unitPrice = 3, bid_availableQuantity = 2,
          bid_expiredAt = None, bid_asset_id = ''a1''\<rparr>,
         \<lparr>bid_id = ''b2'', bid_unitPrice = 4, bid_availableQuantity = 1,
          bid_expiredAt = Some (Date 500), bid_asset_id = ''a2''\<rparr>] ! 1)
      = rebid_link ''/tokens/a2/bid''
   \<and> row_actions_cell (table_rows True INITIAL (\<lambda>k. 1000) 0
        [\<lparr>bid_id = ''b1'', bid_unitPrice = 3, bid_availableQuantity = 2,
          bid_expiredAt = None, bid_asset_id = ''a1''\<rparr>,
         \<lparr>bid_id = ''b2'', bid_unitPrice = 4, bid_availableQuantity = 1,
          bid_expiredAt = Some (Date 500), bid_asset_id = ''a2''\<rparr>] ! 0)
      = cancel_button False ''b1''
   \<and> row_actions_cell (table_rows False INITIAL (\<lambda>k. 1000) 0
        [\<lparr>bid_id = ''b1'', bid_unitPrice = 3, bid_availableQuantity = 2,
          bid_expiredAt = None, bid_asset_id = ''a1''\<rparr>,
         \<lparr>bid_id = ''b2'', bid_unitPrice = 4, bid_availableQuantity = 1,
          bid_expiredAt = Some (Date 500), bid_asset_id = ''a2''\<rparr>] ! 0)
      = no_actions"
proof -
  let ?bids = "[\<lparr>bid_id = ''b1'', bid_unitPrice = 3, bid_availableQuantity = 2,
        bid_expiredAt = None, bid_asset_id = ''a1''\<rparr>,
       \<lparr>bid_id = ''b2'', bid_unitPrice = 4, bid_availableQuantity = 1,
        bid_expiredAt = Some (Date 500), bid_asset_id = ''a2''\<rparr>]"
  have h1: "(1::nat) < length ?bids" by simp
  have h0: "(0::nat) < length ?bids" by simp
  from row_actions_by_login_and_expiry [OF h1, of True INITIAL "\<lambda>k. 1000" 0]
    row_actions_by_login_and_expiry [OF h0, of True INITIAL "\<lambda>k. 1000" 0]
    row_actions_by_login_and_expiry [OF h0, of False INITIAL "\<lambda>k. 1000" 0]
    h1
  show ?thesis by simp
qed

text \<open>
  C9. Every row shows the status \<open>expired\<close> if and only if the bid has an expiry date that
  is at or before the time of the render, and \<open>active\<close> otherwise, bids without an expiry
  date included; the price shown is the unit price times the available quantity.
\<close>

theorem row_status_and_price:
  "i < length bids \<Longrightarrow>
   row_status (table_rows ownerLoggedIn activeStep clock k bids ! i) =
     (if \<exists>ms. bid_expiredAt (bids ! i) = Some (Date ms) \<and> ms \<le> clock (k + 2 * i)
      then ''user.bid-placed.status.expired'' else ''user.bid-placed.status.active'')
   \<and> (row_status (table_rows ownerLoggedIn activeStep clock k bids ! i)
         = ''user.bid-placed.status.expired''
       \<longleftrightarrow> (\<exists>ms. bid_expiredAt (bids ! i) = Some (Date ms) \<and> ms \<le> clock (k + 2 * i)))
   \<and> row_price (table_rows ownerLoggedIn activeStep clock k bids ! i)
       = bid_unitPrice (bids ! i) * bid_availableQuantity (bids ! i)"
  by (auto simp: table_rows_nth render_row_def status_key_def date_le_def price_amount_def
      split: option.splits js_date.splits)

theorem row_status_and_price_witness:
  "(1::nat) < length
      [\<lparr>bid_id = ''b1'', bid_unitPrice = 3, bid_availableQuantity = 2,
        bid_expiredAt = None, bid_asset_id = ''a1''\<rparr>,
       \<lparr>bid_id = ''b2'', bid_unitPrice = 4, bid_availableQuantity = 5,
        bid_expiredAt = Some (Date 500), bid_asset_id = ''a2''\<rparr>]
   \<and> row_status (table_rows True INITIAL (\<lambda>k. 1000) 0
        [\<lparr>bid_id = ''b1'', bid_unitPrice = 3, bid_availableQuantity = 2,
          bid_expiredAt = None, bid_asset_id = ''a1''\<rparr>,
         \<lparr>bid_id = ''b2'', bid_unitPrice = 4, bid_availableQuantity = 5,
          bid_expiredAt = Some (Date 500), bid_asset_id = ''a2''\<rparr>] ! 1)
      = ''user.bid-placed.status.expired''
   \<and> row_price (table_rows True INITIAL (\<lambda>k. 1000) 0
        [\<lparr>bid_id = ''b1'', bid_unitPrice = 3, bid_availableQuantity = 2,
          bid_expiredAt = None, bid_asset_id = ''a1''\<rparr>,
         \<lparr>bid_id = ''b2'', bid_unitPrice = 4, bid_availableQuantity = 5,
          bid_expiredAt = Some (Date 500), bid_asset_id = ''a2''\<rparr>] ! 1) = 20
   \<and> row_status (table_rows True INITIAL (\<lambda>k. 1000) 0
        [\<lparr>bid_id = ''b1'', bid_unitPrice = 3, bid_availableQuantity = 2,
          bid_expiredAt = None, bid_asset_id = ''a1''\<rparr>,
         \<lparr>bid_id = ''b2'', bid_unitPrice = 4, bid_availableQuantity = 5,
          bid_expiredAt = Some (Date 500), bid_asset_id = ''a2''\<rparr>] ! 0)
      = ''user.bid-placed.status.active''"
proof -
  let ?bids = "[\<lparr>bid_id = ''b1'', bid_unitPrice = 3, bid_availableQuantity = 2,
        bid_expiredAt = None, bid_asset_id = ''a1''\<rparr>,
       \<lparr>bid_id = ''b2'', bid_unitPrice = 4, bid_availableQuantity = 5,
        bid_expiredAt = Some (Date 500), bid_asset_id = ''a2''\<rparr>]"
  have h1: "(1::nat) < length ?bids" by simp
  have h0: "(0::nat) < length ?bids" by simp
  from row_status_and_price [OF h1, of True INITIAL "\<lambda>k. 1000" 0]
    row_status_and_price [OF h0, of True INITIAL "\<lambda>k. 1000" 0] h1
  show ?thesis by simp
qed

subsection \<open>The server-side props of the bids-placed page\<close>

lemma ascii_toLowerCase_0xAB: "ascii_toLowerCase ''0xAB'' = ''0xab''"
  by code_simp

lemma route_userAddress_Some:
  "route_userAddress toLowerCase ctx = Inr (Some a) \<Longrightarrow>
   \<exists>ps x. params ctx = Some ps
     \<and> (ps ''id'' = Some (Single x) \<or> (\<exists>xs. ps ''id'' = Some (Multi (x # xs))))
     \<and> a = toLowerCase x"
  by (auto simp: route_userAddress_def split: option.splits param.splits list.splits if_splits)

lemma route_userAddress_present:
  "params ctx = Some ps \<Longrightarrow>
   ps ''id'' = Some (Single x) \<and> x \<noteq> [] \<or> (\<exists>xs. ps ''id'' = Some (Multi (x # xs))) \<Longrightarrow>
   route_userAddress toLowerCase ctx = Inr (Some (toLowerCase x))"
  by (auto simp: route_userAddress_def)

lemma getServerSideProps_absent:
  "params ctx = None \<or> (\<exists>ps. params ctx = Some ps \<and> ps ''id'' = None) \<Longrightarrow>
   getServerSideProps pm PAGINATION_LIMIT client_query now toJSON toLowerCase ctx = (Inl (Error ''userAddress is falsy''), [])"
  by (auto simp: getServerSideProps_def route_userAddress_def bind_result_def)

lemma getServerSideProps_present:
  "params ctx = Some ps
      \<and> (ps ''id'' = Some (Single x) \<and> x \<noteq> [] \<or> (\<exists>xs. ps ''id'' = Some (Multi (x # xs))))
      \<and> toLowerCase x \<noteq> []
      \<and> getLimit pm ctx PAGINATION_LIMIT = Inr lim
      \<and> getPage pm ctx = Inr pg
      \<and> getOrder pm ctx ''CREATED_AT_DESC'' = Inr ord
      \<and> getOffset pm ctx PAGINATION_LIMIT = Inr off \<Longrightarrow>
   getServerSideProps pm PAGINATION_LIMIT client_query now toJSON toLowerCase ctx =
     (case client_query [(''limit'', JNumber lim), (''offset'', JNumber off),
                (''orderBy'', JString ord), (''address'', JString (toLowerCase x)),
                (''now'', JDate now)] of
           Inl e \<Rightarrow> Inl e
         | Inr res \<Rightarrow>
             (case result_error res of
                Some e \<Rightarrow> Inl e
              | None \<Rightarrow>
                  (case result_data res of
                     None \<Rightarrow> Inl (Error ''data is falsy'')
                   | Some d \<Rightarrow>
                       Inr \<lparr>page = pg, limit = lim, offset = off, orderBy = ord,
                            userAddress = toLowerCase x, now_json = toJSON now,
                            meta = \<lparr>meta_title =
                                      or_else (case bids_account d of None \<Rightarrow> None
                                               | Some a \<Rightarrow> bids_account_name a) (toLowerCase x),
                                    meta_description =
                                      or_else (case bids_account d of None \<Rightarrow> None
                                               | Some a \<Rightarrow> bids_account_description a) [],
                                    meta_image =
                                      or_else (case bids_account d of None \<Rightarrow> None
                                               | Some a \<Rightarrow> bids_account_image a) []\<rparr>\<rparr>)),
         [[(''limit'', JNumber lim), (''offset'', JNumber off),
           (''orderBy'', JString ord), (''address'', JString (toLowerCase x)),
           (''now'', JDate now)]])"
proof -
  assume a: "params ctx = Some ps
      \<and> (ps ''id'' = Some (Single x) \<and> x \<noteq> [] \<or> (\<exists>xs. ps ''id'' = Some (Multi (x # xs))))
      \<and> toLowerCase x \<noteq> []
      \<and> getLimit pm ctx PAGINATION_LIMIT = Inr lim
      \<and> getPage pm ctx = Inr pg
      \<and> getOrder pm ctx ''CREATED_AT_DESC'' = Inr ord
      \<and> getOffset pm ctx PAGINATION_LIMIT = Inr off"
  then have r: "route_userAddress toLowerCase ctx = Inr (Some (toLowerCase x))"
    using route_userAddress_present [of ctx ps x toLowerCase] by blast
  from a r show ?thesis
    by (simp add: getServerSideProps_def bind_result_def split: sum.splits option.splits)
qed

lemma getServerSideProps_returned:
  "getServerSideProps pm PAGINATION_LIMIT client_query now toJSON toLowerCase ctx = (Inr p, qs) \<Longrightarrow>
   (\<exists>ps x lim pg ord off.
         params ctx = Some ps
         \<and> (ps ''id'' = Some (Single x) \<or> (\<exists>xs. ps ''id'' = Some (Multi (x # xs))))
         \<and> getLimit pm ctx PAGINATION_LIMIT = Inr lim
         \<and> getPage pm ctx = Inr pg
         \<and> getOrder pm ctx ''CREATED_AT_DESC'' = Inr ord
         \<and> getOffset pm ctx PAGINATION_LIMIT = Inr off
         \<and> qs = [[(''limit'', JNumber lim), (''offset'', JNumber off),
                  (''orderBy'', JString ord), (''address'', JString (toLowerCase x)),
                  (''now'', JDate now)]]
         \<and> page p = pg \<and> limit p = lim \<and> offset p = off \<and> orderBy p = ord
         \<and> userAddress p = toLowerCase x)"
proof -
  assume ok: "getServerSideProps pm PAGINATION_LIMIT client_query now toJSON toLowerCase ctx = (Inr p, qs)"
  obtain ua where ua: "route_userAddress toLowerCase ctx = Inr ua"
    using ok by (cases "route_userAddress toLowerCase ctx")
      (auto simp: getServerSideProps_def bind_result_def)
  obtain a where a: "ua = Some a" "a \<noteq> []"
    using ok ua
    by (cases ua) (auto simp: getServerSideProps_def bind_result_def split: if_splits)
  obtain lim where lim: "getLimit pm ctx PAGINATION_LIMIT = Inr lim"
    using ok ua a
    by (cases "getLimit pm ctx PAGINATION_LIMIT")
      (auto simp: getServerSideProps_def bind_result_def)
  obtain pg where pg: "getPage pm ctx = Inr pg"
    using ok ua a lim
    by (cases "getPage pm ctx") (auto simp: getServerSideProps_def bind_result_def)
  obtain ord where ord: "getOrder pm ctx ''CREATED_AT_DESC'' = Inr ord"
    using ok ua a lim pg
    by (cases "getOrder pm ctx ''CREATED_AT_DESC''")
      (auto simp: getServerSideProps_def bind_result_def)
  obtain off where off: "getOffset pm ctx PAGINATION_LIMIT = Inr off"
    using ok ua a lim pg ord
    by (cases "getOffset pm ctx PAGINATION_LIMIT")
      (auto simp: getServerSideProps_def bind_result_def)
  from route_userAddress_Some [of toLowerCase ctx a] ua a obtain ps x where
    ps: "params ctx = Some ps"
      "ps ''id'' = Some (Single x) \<or> (\<exists>xs. ps ''id'' = Some (Multi (x # xs)))"
      "a = toLowerCase x"
    by blast
  have res: "qs = [[(''limit'', JNumber lim), (''offset'', JNumber off),
                  (''orderBy'', JString ord), (''address'', JString (toLowerCase x)),
                  (''now'', JDate now)]]
         \<and> page p = pg \<and> limit p = lim \<and> offset p = off \<and> orderBy p = ord
         \<and> userAddress p = toLowerCase x"
    using ok ua a lim pg ord off ps(3)
    by (auto simp: getServerSideProps_def bind_result_def Let_def
        split: sum.splits option.splits)
  from ps(1,2) lim pg ord off res show ?thesis by blast
qed




subsection \<open>The submit button of the checkout form\<close>

text \<open>
  C8, as stated, fails: with no account connected and the quantity field shown, the Enter
  key in the field submits the form, and \<open>onSubmit\<close> awaits \<open>acceptOffer\<close>: the purchase
  submission does run without an account.
\<close>

theorem enter_key_submits_without_account:
  "\<not> truthy None
   \<and> checkout_event decimal_from (\<lambda>e. case e of Error m \<Rightarrow> m) (\<lambda>off q. Inr ()) (Inr ())
       None None 30
       (Some \<lparr>offer_id = ''7'', unitPrice = ''30'', availableQuantity = ''5''\<rparr>) True False
       \<lparr>quantity = ''1''\<rparr> presses_enter \<lparr>isOpen = False, toasts = [], calls = []\<rparr>
     = (Inr (), \<lparr>isOpen = False, toasts = [],
                calls = [Await (AcceptOffer
                           \<lparr>offer_id = ''7'', unitPrice = ''30'', availableQuantity = ''5''\<rparr> ''1''),
                         Invoke OnPurchased]\<rparr>)"
  by (simp add: truthy_def checkout_event_def render_checkout_button_def canPurchase_def
      checkout_button_def press_enter_def handleSubmit_def onSubmit_hook_resolves)

text \<open>
  C8, amended. With no account connected, the button rendered is of type \<open>button\<close> and a
  click on it opens the login modal instead of submitting the form: \<open>onSubmit\<close> does not
  run. With an account connected, the button is a submit button that is disabled exactly
  when \<open>canPurchase\<close> is false, a disabled button takes no click, so that a click does not
  run \<open>onSubmit\<close> either, and while the balance has not loaded the button is always
  disabled.
\<close>

theorem checkout_button_gates_submission:
  "(\<not> truthy account \<longrightarrow>
      (\<forall>b. render_checkout_button BigNumber_from account balance priceUnit qty isSubmitting = Inr b
         \<longrightarrow> button_type b = type_button \<and> onClick b = Some loginOnOpen
             \<and> click b = opens_login))
   \<and> (truthy account \<longrightarrow>
      (\<forall>b. render_checkout_button BigNumber_from account balance priceUnit qty isSubmitting = Inr b
         \<longrightarrow> button_type b = type_submit
             \<and> (disabled b \<longleftrightarrow> canPurchase BigNumber_from balance priceUnit qty = Inr False)
             \<and> (disabled b \<longrightarrow> click b = no_effect)))
   \<and> (truthy account \<longrightarrow>
      (\<exists>b. render_checkout_button BigNumber_from account None priceUnit qty isSubmitting = Inr b
         \<and> button_type b = type_submit \<and> disabled b \<and> click b = no_effect))
   \<and> (\<not> truthy account \<longrightarrow>
        snd (checkout_event BigNumber_from formatError acceptOffer onPurchased account balance
               priceUnit offer multiple isSubmitting form clicks_button s) = s)
   \<and> (truthy account
        \<and> canPurchase BigNumber_from balance priceUnit (quantity form) = Inr False \<longrightarrow>
        snd (checkout_event BigNumber_from formatError acceptOffer onPurchased account balance
               priceUnit offer multiple isSubmitting form clicks_button s) = s)"
proof -
  have button: "(\<not> truthy account \<longrightarrow>
      (\<forall>b. render_checkout_button BigNumber_from account balance priceUnit qty isSubmitting = Inr b
         \<longrightarrow> button_type b = type_button \<and> onClick b = Some loginOnOpen
             \<and> click b = opens_login))
   \<and> (truthy account \<longrightarrow>
      (\<forall>b. render_checkout_button BigNumber_from account balance priceUnit qty isSubmitting = Inr b
         \<longrightarrow> button_type b = type_submit
             \<and> (disabled b \<longleftrightarrow> canPurchase BigNumber_from balance priceUnit qty = Inr False)
             \<and> (disabled b \<longrightarrow> click b = no_effect)))
   \<and> (truthy account \<longrightarrow>
      (\<exists>b. render_checkout_button BigNumber_from account None priceUnit qty isSubmitting = Inr b
         \<and> button_type b = type_submit \<and> disabled b \<and> click b = no_effect))"
    by (auto simp: render_checkout_button_def checkout_button_def click_def canPurchase_def
        split: sum.splits option.splits if_splits)
  have login: "\<not> truthy account \<Longrightarrow>
        snd (checkout_event BigNumber_from formatError acceptOffer onPurchased account balance
               priceUnit offer multiple isSubmitting form clicks_button s) = s"
    by (simp add: checkout_event_def render_checkout_button_def checkout_button_def click_def
        split: sum.splits)
  have off: "truthy account
        \<and> canPurchase BigNumber_from balance priceUnit (quantity form) = Inr False \<Longrightarrow>
        snd (checkout_event BigNumber_from formatError acceptOffer onPurchased account balance
               priceUnit offer multiple isSubmitting form clicks_button s) = s"
    by (simp add: checkout_event_def render_checkout_button_def checkout_button_def click_def)
  from button login off show ?thesis by blast
qed

theorem checkout_button_gates_submission_witness:
  "\<not> truthy None
   \<and> render_checkout_button decimal_from None None 30 ''3'' False
       = Inr \<lparr>disabled = False, isLoading = False, button_type = type_button,
              onClick = Some loginOnOpen\<rparr>
   \<and> click \<lparr>disabled = False, isLoading = False, button_type = type_button,
              onClick = Some loginOnOpen\<rparr> = opens_login
   \<and> truthy (Some ''0xab'')
   \<and> render_checkout_button decimal_from (Some ''0xab'') (Some 50) 30 ''3'' False
       = Inr \<lparr>disabled = True, isLoading = False, button_type = type_submit, onClick = None\<rparr>
   \<and> click \<lparr>disabled = True, isLoading = False, button_type = type_submit, onClick = None\<rparr>
       = no_effect
   \<and> (\<exists>b. render_checkout_button decimal_from (Some ''0xab'') None 30 ''3'' False = Inr b
          \<and> disabled b)
   \<and> snd (checkout_event decimal_from (\<lambda>e. case e of Error m \<Rightarrow> m) (\<lambda>off q. Inr ()) (Inr ())
            None None 30
            (Some \<lparr>offer_id = ''7'', unitPrice = ''30'', availableQuantity = ''5''\<rparr>) True False
            \<lparr>quantity = ''3''\<rparr> clicks_button \<lparr>isOpen = False, toasts = [], calls = []\<rparr>)
       = \<lparr>isOpen = False, toasts = [], calls = []\<rparr>
   \<and> canPurchase decimal_from (Some 50) 30 (quantity \<lparr>quantity = ''3''\<rparr>) = Inr False
   \<and> snd (checkout_event decimal_from (\<lambda>e. case e of Error m \<Rightarrow> m) (\<lambda>off q. Inr ()) (Inr ())
            (Some ''0xab'') (Some 50) 30
            (Some \<lparr>offer_id = ''7'', unitPrice = ''30'', availableQuantity = ''5''\<rparr>) True False
            \<lparr>quantity = ''3''\<rparr> clicks_button \<lparr>isOpen = False, toasts = [], calls = []\<rparr>)
       = \<lparr>isOpen = False, toasts = [], calls = []\<rparr>"
proof -
  let ?login = "\<lparr>disabled = False, isLoading = False, button_type = type_button,
              onClick = Some loginOnOpen\<rparr>"
  let ?off = "\<lparr>disabled = True, isLoading = False, button_type = type_submit, onClick = None\<rparr>"
  let ?fe = "\<lambda>e. case e of Error m \<Rightarrow> m"
  let ?accept = "\<lambda>(off::offer) (q::string). Inr () :: js_error + unit"
  let ?offer = "Some \<lparr>offer_id = ''7'', unitPrice = ''30'', availableQuantity = ''5''\<rparr>"
  let ?form = "\<lparr>quantity = ''3''\<rparr>"
  let ?s = "\<lparr>isOpen = False, toasts = [], calls = []\<rparr>"
  have h1: "\<not> truthy None" by (simp add: truthy_def)
  have h2: "render_checkout_button decimal_from None None 30 ''3'' False = Inr ?login"
    by (simp add: render_checkout_button_def canPurchase_def checkout_button_def truthy_def)
  have h3: "truthy (Some ''0xab'')" by (simp add: truthy_def)
  have h4: "render_checkout_button decimal_from (Some ''0xab'') (Some 50) 30 ''3'' False = Inr ?off"
    by (simp add: render_checkout_button_def canPurchase_def checkout_button_def truthy_def
        decimal_from_def)
  have h5: "canPurchase decimal_from (Some 50) 30 (quantity ?form) = Inr False"
    by (simp add: canPurchase_def decimal_from_def)
  note at_none = checkout_button_gates_submission
    [where account = None and BigNumber_from = decimal_from and balance = None
       and priceUnit = 30 and qty = "''3''" and isSubmitting = False and formatError = ?fe
       and acceptOffer = ?accept and onPurchased = "Inr ()" and offer = ?offer
       and multiple = True and form = ?form and s = ?s]
  note at_some = checkout_button_gates_submission
    [where account = "Some ''0xab''" and BigNumber_from = decimal_from and balance = "Some 50"
       and priceUnit = 30 and qty = "''3''" and isSubmitting = False and formatError = ?fe
       and acceptOffer = ?accept and onPurchased = "Inr ()" and offer = ?offer
       and multiple = True and form = ?form and s = ?s]
  have c1: "click ?login = opens_login"
    using at_none h1 h2 by blast
  have c2: "click ?off = no_effect"
    using at_some h3 h4 by simp
  have c3: "\<exists>b. render_checkout_button decimal_from (Some ''0xab'') None 30 ''3'' False = Inr b
          \<and> disabled b"
    using at_some h3 by blast
  have c4: "snd (checkout_event decimal_from ?fe ?accept (Inr ()) None None 30 ?offer True False
              ?form clicks_button ?s) = ?s"
    using at_none h1 by blast
  have c5: "snd (checkout_event decimal_from ?fe ?accept (Inr ()) (Some ''0xab'') (Some 50) 30
              ?offer True False ?form clicks_button ?s) = ?s"
    using at_some h3 h5 by blast
  from h1 h2 h3 h4 h5 c1 c2 c3 c4 c5 show ?thesis by simp
qed

subsection \<open>The token-creation page\<close>

lemma verified_creator:
  "verified (creator data) \<longleftrightarrow>
     (\<exists>d a v. data = Some d \<and> fetched d = Some a \<and> account_verification a = Some v
        \<and> verification_status v = ''VALIDATED'')"
  by (auto simp: creator_def split: option.splits)

text \<open>
  C10. When \<open>RESTRICT_TO_VERIFIED_ACCOUNT\<close> is set and the fetched account has no
  verification of status \<open>VALIDATED\<close> (also while no account has been fetched), the page
  holds no \<open>TokenFormCreate\<close> at all and holds the restricted-access notice.
\<close>

theorem unverified_account_gets_no_form:
  "RESTRICT_TO_VERIFIED_ACCOUNT \<Longrightarrow>
   \<not> (\<exists>d a v. data = Some d \<and> fetched d = Some a \<and> account_verification a = Some v
        \<and> verification_status v = ''VALIDATED'') \<Longrightarrow>
   (\<forall>m. TokenFormCreate m \<notin> set (CreatePage RESTRICT_TO_VERIFIED_ACCOUNT t data multiple))
   \<and> RestrictedNotice (t ''asset.restricted.title'')
       \<in> set (CreatePage RESTRICT_TO_VERIFIED_ACCOUNT t data multiple)"
  using verified_creator [of data] by (simp add: CreatePage_def)

theorem unverified_account_gets_no_form_witness:
  "\<not> (\<exists>d a v. Some \<lparr>fetched = Some \<lparr>account_address = ''0xab'', account_image = None,
            account_name = None,
            account_verification = Some \<lparr>verification_status = ''PENDING''\<rparr>\<rparr>\<rparr> = Some d
          \<and> fetched d = Some a \<and> account_verification a = Some v
          \<and> verification_status v = ''VALIDATED'')
   \<and> (\<forall>m. TokenFormCreate m \<notin> set (CreatePage True (\<lambda>k. k)
         (Some \<lparr>fetched = Some \<lparr>account_address = ''0xab'', account_image = None,
            account_name = None,
            account_verification = Some \<lparr>verification_status = ''PENDING''\<rparr>\<rparr>\<rparr>) False))
   \<and> RestrictedNotice ''asset.restricted.title'' \<in> set (CreatePage True (\<lambda>k. k)
         (Some \<lparr>fetched = Some \<lparr>account_address = ''0xab'', account_image = None,
            account_name = None,
            account_verification = Some \<lparr>verification_status = ''PENDING''\<rparr>\<rparr>\<rparr>) False)"
proof -
  let ?data = "Some \<lparr>fetched = Some \<lparr>account_address = ''0xab'', account_image = None,
            account_name = None,
            account_verification = Some \<lparr>verification_status = ''PENDING''\<rparr>\<rparr>\<rparr>"
  have h1: True by simp
  have h2: "\<not> (\<exists>d a v. ?data = Some d
          \<and> fetched d = Some a \<and> account_verification a = Some v
          \<and> verification_status v = ''VALIDATED'')"
    by auto
  from unverified_account_gets_no_form [OF h1 h2, of "\<lambda>k. k" False] h2
  show ?thesis by simp
qed

end
